theory Spec2Isabelle
  imports Main
begin

section \<open>Data model (src/types.ts and the state of src/App.tsx)\<close>

text \<open>
  JavaScript strings are modelled as \<open>string\<close>, a list of 8-bit characters read as the
  code units below 256. A field of the session state whose name is also a field of
  \<open>ExtractedJobDetails\<close> carries the suffix \<open>_st\<close>.
\<close>

record ExtractedJobDetails =
  companyProfile :: string
  jobDescription :: string
  salaryBudget :: string
  hrContact :: string
  contactEmail :: string
  previousHolder :: string
  possibleManager :: string
  teamMates :: string

datatype AppStatus =
  IDLE | EXTRACTING | PARSING | OPTIMIZING | GENERATING_COVER_LETTER | ERROR | SUCCESS

datatype toast_type = ToastSuccess | ToastError | ToastInfo

record ToastMessage =
  toast_id :: string
  toast_type :: toast_type
  message :: string

datatype Tab = Tab_cv | Tab_cl

text \<open>
  What a call of \<open>setTimeout\<close> in App.tsx schedules: the removal of a toast by id
  (\<open>addToast\<close>) or the reset of the status (\<open>handleFileUpload\<close>).
\<close>

datatype timer_action = ExpireToast string | StatusIdle

text \<open>
  The argument of \<open>ai.models.generateContent\<close>, by the service that builds it and the
  values interpolated into its prompt; and what the call gives back: a rejected promise,
  or a response whose \<open>text\<close> is a string or undefined.
\<close>

datatype request =
  ReqExtract string
  | ReqParseMedia "string option" string
  | ReqParseText string
  | ReqOptimize string string string
  | ReqCoverLetter string string string

datatype api_outcome = Rejected | Response "string option"

text \<open>
  The session: the \<open>useState\<close> variables of \<open>App\<close>, and the part of the browser the
  handlers act on: the clock in milliseconds, the timers pending with their due time, and
  the log of the requests sent to the generation client.
\<close>

record world =
  url :: string
  companyProfile_st :: string
  jobDescription_st :: string
  otherDetails :: string
  activeTab :: Tab
  cvContent :: string
  clContent :: string
  status :: AppStatus
  toasts :: "ToastMessage list"
  isEditing :: bool
  showImportMenu :: bool
  clock :: nat
  timers :: "(nat \<times> timer_action) list"
  calls :: "request list"

section \<open>Strings\<close>

definition nl :: string where
  "nl = [CHR 0x0A]"

definition dquote :: string where
  "dquote = [CHR 0x22]"

text \<open>The white space and line terminators of ECMAScript that are below 256.\<close>

definition is_space :: "char \<Rightarrow> bool" where
  "is_space c = (c \<in> set [CHR 0x09, CHR 0x0A, CHR 0x0B, CHR 0x0C, CHR 0x0D, CHR 0x20, CHR 0xA0])"

definition trim :: "string \<Rightarrow> string" where
  "trim s = rev (dropWhile is_space (rev (dropWhile is_space s)))"

fun starts_with :: "string \<Rightarrow> string \<Rightarrow> bool" where
  "starts_with s [] = True"
| "starts_with [] (p # ps) = False"
| "starts_with (c # cs) (p # ps) = (c = p \<and> starts_with cs ps)"

text \<open>\<open>s.includes(pat)\<close>: \<open>pat\<close> occurs in \<open>s\<close> as a contiguous run.\<close>

fun includes_str :: "string \<Rightarrow> string \<Rightarrow> bool" where
  "includes_str [] pat = (pat = [])"
| "includes_str (c # cs) pat = (starts_with (c # cs) pat \<or> includes_str cs pat)"

text \<open>\<open>s.split(',')[1]\<close>: undefined when \<open>s\<close> has no comma.\<close>

definition split_comma_1 :: "string \<Rightarrow> string option" where
  "split_comma_1 s =
     (case dropWhile (\<lambda>c. c \<noteq> CHR '','') s of
        [] \<Rightarrow> None
      | c # rest \<Rightarrow> Some (takeWhile (\<lambda>c. c \<noteq> CHR '','') rest))"

text \<open>\<open>m || dflt\<close> on strings: the empty string is falsy.\<close>

definition or_else :: "string \<Rightarrow> string \<Rightarrow> string" where
  "or_else m dflt = (if m = [] then dflt else m)"

section \<open>Initial state\<close>

definition DEFAULT_CV_PLACEHOLDER :: string where
  "DEFAULT_CV_PLACEHOLDER =
     nl @ ''# John Doe'' @ nl @
     ''**Software Engineer**'' @ nl @
     nl @
     ''## Professional Summary'' @ nl @
     ''Experienced software engineer with a passion for building scalable web applications...'' @ nl @
     nl @
     ''## Experience'' @ nl @
     ''**Senior Developer | Tech Corp**'' @ nl @
     ''*Jan 2020 - Present*'' @ nl @
     ''* Led a team of 5 developers...'' @ nl @
     ''* Improved system performance by 30%...'' @ nl @
     nl @
     ''## Skills'' @ nl @
     ''* JavaScript, TypeScript, React, Node.js'' @ nl @
     ''* AWS, Docker, Kubernetes'' @ nl"

definition DEFAULT_CL_PLACEHOLDER :: string where
  "DEFAULT_CL_PLACEHOLDER =
     nl @ ''Click '' @ dquote @ ''Generate Cover Letter'' @ dquote @
     '' to draft a tailored letter based on your Resume and the Job Description.'' @ nl"

definition initial_world :: world where
  "initial_world =
     \<lparr> url = [], companyProfile_st = [], jobDescription_st = [], otherDetails = [],
       activeTab = Tab_cv,
       cvContent = trim DEFAULT_CV_PLACEHOLDER,
       clContent = trim DEFAULT_CL_PLACEHOLDER,
       status = IDLE, toasts = [], isEditing = True, showImportMenu = False,
       clock = 0, timers = [], calls = [] \<rparr>"

section \<open>Notifications and timers\<close>

text \<open>
  \<open>addToast\<close>: the id \<open>rid\<close> is the value of
  \<open>Math.random().toString(36).substr(2, 9)\<close>, drawn by the caller's environment. The toast
  goes to the end of the queue and its removal is scheduled 5000 ms from now.
\<close>

definition addToast :: "string \<Rightarrow> toast_type \<Rightarrow> string \<Rightarrow> world \<Rightarrow> world" where
  "addToast rid ty msg w =
     w\<lparr> toasts := toasts w @ [\<lparr> toast_id = rid, toast_type = ty, message = msg \<rparr>],
        timers := timers w @ [(clock w + 5000, ExpireToast rid)] \<rparr>"

definition removeToast :: "string \<Rightarrow> world \<Rightarrow> world" where
  "removeToast i w = w\<lparr> toasts := filter (\<lambda>t. toast_id t \<noteq> i) (toasts w) \<rparr>"

fun run_action :: "timer_action \<Rightarrow> world \<Rightarrow> world" where
  "run_action (ExpireToast i) w = w\<lparr> toasts := filter (\<lambda>t. toast_id t \<noteq> i) (toasts w) \<rparr>"
| "run_action StatusIdle w = w\<lparr> status := IDLE \<rparr>"

text \<open>
  \<open>advance d\<close>: \<open>d\<close> milliseconds pass with no other event. The timers that are due run in
  the order of their due time, those due together in the order they were set; the others
  stay pending. No timer callback of App.tsx sets a timer.
\<close>

definition advance :: "nat \<Rightarrow> world \<Rightarrow> world" where
  "advance d w =
     (let t = clock w + d;
          due = sort_key fst (filter (\<lambda>p. fst p \<le> t) (timers w));
          rest = filter (\<lambda>p. t < fst p) (timers w)
      in fold (\<lambda>p. run_action (snd p)) due (w\<lparr> clock := t, timers := rest \<rparr>))"

section \<open>The services (src/services/geminiService.ts)\<close>

text \<open>
  A service returns \<open>Inr\<close> its value, or \<open>Inl\<close> the message of the \<open>Error\<close> it throws.
  Each one sends exactly one request, as its first statement.
\<close>

definition generateContent ::
  "(request \<Rightarrow> api_outcome) \<Rightarrow> request \<Rightarrow> world \<Rightarrow> api_outcome \<times> world" where
  "generateContent gen req w = (gen req, w\<lparr> calls := calls w @ [req] \<rparr>)"

text \<open>\<open>const text = response.text; if (!text) throw new Error("No response from Gemini")\<close>\<close>

definition response_text :: "api_outcome \<Rightarrow> string + string" where
  "response_text out =
     (case out of
        Rejected \<Rightarrow> Inl ''request failed''
      | Response None \<Rightarrow> Inl ''No response from Gemini''
      | Response (Some text) \<Rightarrow> if text = [] then Inl ''No response from Gemini'' else Inr text)"

text \<open>\<open>catch (error) { throw new Error(msg) }\<close>: whatever was thrown, the message is \<open>msg\<close>.\<close>

definition rethrow :: "string \<Rightarrow> string + 'a \<Rightarrow> string + 'a" where
  "rethrow msg r = (case r of Inl e \<Rightarrow> Inl msg | Inr v \<Rightarrow> Inr v)"

text \<open>
  \<open>extractJobDetails\<close>: \<open>parse\<close> stands for \<open>JSON.parse(text) as ExtractedJobDetails\<close>,
  \<open>None\<close> where it throws; the cast is trusted as the source trusts it.
\<close>

definition extractJobDetails ::
  "(request \<Rightarrow> api_outcome) \<Rightarrow> (string \<Rightarrow> ExtractedJobDetails option) \<Rightarrow> string \<Rightarrow> world
     \<Rightarrow> (string + ExtractedJobDetails) \<times> world" where
  "extractJobDetails gen parse u w =
     (case generateContent gen (ReqExtract u) w of
        (out, w') \<Rightarrow>
          (rethrow ''Failed to extract job details. Please ensure the URL is valid or try pasting the details manually.''
             (case response_text out of
                Inl e \<Rightarrow> Inl e
              | Inr text \<Rightarrow> (case parse text of None \<Rightarrow> Inl ''SyntaxError'' | Some d \<Rightarrow> Inr d)),
           w'))"

definition parseResumeFromMedia ::
  "(request \<Rightarrow> api_outcome) \<Rightarrow> string option \<Rightarrow> string \<Rightarrow> world \<Rightarrow> (string + string) \<times> world" where
  "parseResumeFromMedia gen base64Data mimeType w =
     (case generateContent gen (ReqParseMedia base64Data mimeType) w of
        (out, w') \<Rightarrow>
          (rethrow ''Failed to read the resume file. Please try converting to a simpler PDF or Image, or copy-paste the text.''
             (response_text out), w'))"

definition parseResumeFromText ::
  "(request \<Rightarrow> api_outcome) \<Rightarrow> string \<Rightarrow> world \<Rightarrow> (string + string) \<times> world" where
  "parseResumeFromText gen rawText w =
     (case generateContent gen (ReqParseText rawText) w of
        (out, w') \<Rightarrow>
          (rethrow ''Failed to parse text content. Please try again.'' (response_text out), w'))"

definition optimizeCV ::
  "(request \<Rightarrow> api_outcome) \<Rightarrow> string \<Rightarrow> string \<Rightarrow> string \<Rightarrow> world \<Rightarrow> (string + string) \<times> world" where
  "optimizeCV gen currentCv cp jd w =
     (case generateContent gen (ReqOptimize currentCv cp jd) w of
        (out, w') \<Rightarrow>
          (rethrow ''Failed to optimize CV. Please try again.'' (response_text out), w'))"

definition generateCoverLetter ::
  "(request \<Rightarrow> api_outcome) \<Rightarrow> string \<Rightarrow> string \<Rightarrow> string \<Rightarrow> world \<Rightarrow> (string + string) \<times> world" where
  "generateCoverLetter gen currentCv cp jd w =
     (case generateContent gen (ReqCoverLetter currentCv cp jd) w of
        (out, w') \<Rightarrow>
          (rethrow ''Failed to generate Cover Letter.'' (response_text out), w'))"

section \<open>The handlers (src/App.tsx)\<close>

text \<open>
  An \<open>async\<close> handler is given twice. The function itself runs the handler from its
  invocation to its end with the outcome of what it awaits, no other event coming in
  between. Its continuation \<open>_resume\<close> is the code after the \<open>await\<close> of the service,
  with the \<open>catch\<close> and \<open>finally\<close> blocks, run on the state the session is in when
  the call comes back, whatever happened in between. Every handler draws at most one
  toast id, \<open>rid\<close>.
\<close>

subsection \<open>handleExtract\<close>

definition formattedDetails :: "ExtractedJobDetails \<Rightarrow> string" where
  "formattedDetails details =
     ''Salary Budget: '' @ salaryBudget details @ nl @
     nl @
     ''HR Contact: '' @ hrContact details @ nl @
     nl @
     ''Email: '' @ contactEmail details @ nl @
     nl @
     ''Previous/Current Holder:'' @ nl @
     previousHolder details @ nl @
     nl @
     ''Possible Manager:'' @ nl @
     possibleManager details @ nl @
     nl @
     ''Possible Team Mates:'' @ nl @
     teamMates details"

definition handleExtract_resume ::
  "string + ExtractedJobDetails \<Rightarrow> string \<Rightarrow> world \<Rightarrow> world" where
  "handleExtract_resume r rid w =
     (case r of
        Inr details \<Rightarrow>
          addToast rid ToastSuccess ''Job details extracted successfully!''
            (w\<lparr> companyProfile_st := companyProfile details,
                jobDescription_st := jobDescription details,
                otherDetails := formattedDetails details \<rparr>)
      | Inl msg \<Rightarrow> addToast rid ToastError (or_else msg ''Failed to extract data'') w)
     \<lparr> status := IDLE \<rparr>"

definition handleExtract ::
  "(request \<Rightarrow> api_outcome) \<Rightarrow> (string \<Rightarrow> ExtractedJobDetails option) \<Rightarrow> string \<Rightarrow> world
     \<Rightarrow> world" where
  "handleExtract gen parse rid w =
     (if trim (url w) = [] then addToast rid ToastError ''Please enter a valid URL'' w
      else
        (case extractJobDetails gen parse (url w) (w\<lparr> status := EXTRACTING \<rparr>) of
           (r, w') \<Rightarrow> handleExtract_resume r rid w'))"

subsection \<open>handleOptimize\<close>

definition handleOptimize_resume :: "string + string \<Rightarrow> string \<Rightarrow> world \<Rightarrow> world" where
  "handleOptimize_resume r rid w =
     (case r of
        Inr optimized \<Rightarrow>
          addToast rid ToastSuccess ''CV optimized successfully!''
            (w\<lparr> cvContent := optimized, activeTab := Tab_cv, isEditing := False \<rparr>)
      | Inl msg \<Rightarrow> addToast rid ToastError (or_else msg ''Failed to optimize CV'') w)
     \<lparr> status := IDLE \<rparr>"

definition handleOptimize :: "(request \<Rightarrow> api_outcome) \<Rightarrow> string \<Rightarrow> world \<Rightarrow> world" where
  "handleOptimize gen rid w =
     (if trim (companyProfile_st w) = [] \<or> trim (jobDescription_st w) = []
      then addToast rid ToastError ''Please extract job details first'' w
      else if trim (cvContent w) = []
      then addToast rid ToastError ''Please ensure your current CV is in the editor'' w
      else
        (case optimizeCV gen (cvContent w) (companyProfile_st w) (jobDescription_st w)
                (w\<lparr> status := OPTIMIZING \<rparr>) of
           (r, w') \<Rightarrow> handleOptimize_resume r rid w'))"

subsection \<open>handleGenerateCoverLetter\<close>

definition handleGenerateCoverLetter_resume ::
  "string + string \<Rightarrow> string \<Rightarrow> world \<Rightarrow> world" where
  "handleGenerateCoverLetter_resume r rid w =
     (case r of
        Inr letter \<Rightarrow>
          addToast rid ToastSuccess ''Cover Letter generated!''
            (w\<lparr> clContent := letter, activeTab := Tab_cl, isEditing := False \<rparr>)
      | Inl msg \<Rightarrow> addToast rid ToastError (or_else msg ''Failed to generate Cover Letter'') w)
     \<lparr> status := IDLE \<rparr>"

definition handleGenerateCoverLetter ::
  "(request \<Rightarrow> api_outcome) \<Rightarrow> string \<Rightarrow> world \<Rightarrow> world" where
  "handleGenerateCoverLetter gen rid w =
     (if trim (companyProfile_st w) = [] \<or> trim (jobDescription_st w) = []
      then addToast rid ToastError ''Please extract job details first'' w
      else if trim (cvContent w) = []
      then addToast rid ToastError ''Please ensure your current CV is in the editor'' w
      else
        (case generateCoverLetter gen (cvContent w) (companyProfile_st w) (jobDescription_st w)
                (w\<lparr> status := GENERATING_COVER_LETTER \<rparr>) of
           (r, w') \<Rightarrow> handleGenerateCoverLetter_resume r rid w'))"

subsection \<open>handleFileUpload\<close>

text \<open>
  \<open>handleFileUpload\<close> awaits nothing: it starts a \<open>FileReader\<close>, registers the callbacks
  \<open>reader.onload\<close> and \<open>reader.onerror\<close>, and its \<open>finally\<close> block sets a timer of
  1000 ms that resets the status. The \<open>catch\<close> block guards statements that do not throw
  on a \<open>File\<close>. The event carries the first selected file, if any.
\<close>

record upload =
  file_type :: string

definition handleFileUpload :: "upload option \<Rightarrow> string \<Rightarrow> world \<Rightarrow> world" where
  "handleFileUpload ev rid w =
     (let w0 = w\<lparr> showImportMenu := False \<rparr> in
      case ev of
        None \<Rightarrow> w0
      | Some f \<Rightarrow>
          if \<not> includes_str (file_type f) ''pdf'' \<and> \<not> includes_str (file_type f) ''image''
          then addToast rid ToastError ''Please upload a PDF or Image file.'' w0
          else
            (let w1 = w0\<lparr> status := PARSING \<rparr>
             in w1\<lparr> timers := timers w1 @ [(clock w1 + 1000, StatusIdle)] \<rparr>))"

text \<open>
  \<open>reader.onload\<close>, an \<open>async\<close> callback with no \<open>try\<close> of its own: \<open>result\<close> is the data
  URL read. When \<open>parseResumeFromMedia\<close> throws, the promise of the callback is rejected
  and nothing handles it.
\<close>

definition reader_onload_resume :: "string + string \<Rightarrow> string \<Rightarrow> world \<Rightarrow> world" where
  "reader_onload_resume r rid w =
     (case r of
        Inr extractedText \<Rightarrow>
          addToast rid ToastSuccess ''CV imported successfully!''
            (w\<lparr> cvContent := extractedText, activeTab := Tab_cv, isEditing := True \<rparr>)
      | Inl msg \<Rightarrow> w)"

definition reader_onload ::
  "(request \<Rightarrow> api_outcome) \<Rightarrow> upload \<Rightarrow> string \<Rightarrow> string \<Rightarrow> world \<Rightarrow> world" where
  "reader_onload gen f result rid w =
     (case parseResumeFromMedia gen (split_comma_1 result) (file_type f) w of
        (r, w') \<Rightarrow> reader_onload_resume r rid w')"

definition reader_onerror :: "string \<Rightarrow> world \<Rightarrow> world" where
  "reader_onerror rid w = (addToast rid ToastError ''Failed to read file.'' w)\<lparr> status := IDLE \<rparr>"

subsection \<open>handlePasteFromGoogleDoc\<close>

text \<open>What \<open>navigator.clipboard.readText()\<close> gives: the text, or a rejected promise.\<close>

datatype clipboard_read = ClipText string | ClipDenied

definition handlePasteFromGoogleDoc_resume ::
  "string + string \<Rightarrow> string \<Rightarrow> world \<Rightarrow> world" where
  "handlePasteFromGoogleDoc_resume r rid w =
     (case r of
        Inr extractedText \<Rightarrow>
          addToast rid ToastSuccess ''Pasted content formatted successfully!''
            (w\<lparr> cvContent := extractedText, activeTab := Tab_cv, isEditing := True \<rparr>)
      | Inl msg \<Rightarrow>
          (addToast rid ToastError ''Failed to read clipboard. Please allow permissions.'' w)
          \<lparr> status := IDLE \<rparr>)
     \<lparr> status := IDLE \<rparr>"

definition handlePasteFromGoogleDoc ::
  "clipboard_read \<Rightarrow> (request \<Rightarrow> api_outcome) \<Rightarrow> string \<Rightarrow> world \<Rightarrow> world" where
  "handlePasteFromGoogleDoc clip gen rid w =
     (let w0 = w\<lparr> showImportMenu := False \<rparr> in
      case clip of
        ClipDenied \<Rightarrow>
          (addToast rid ToastError ''Failed to read clipboard. Please allow permissions.'' w0)
          \<lparr> status := IDLE \<rparr> \<lparr> status := IDLE \<rparr>
      | ClipText text \<Rightarrow>
          if text = [] \<or> trim text = []
          then (addToast rid ToastError ''Clipboard is empty. Copy your CV text first.'' w0)
               \<lparr> status := IDLE \<rparr>
          else
            (case parseResumeFromText gen text (w0\<lparr> status := PARSING \<rparr>) of
               (r, w') \<Rightarrow> handlePasteFromGoogleDoc_resume r rid w'))"

section \<open>Specification-side definitions and sample inputs\<close>

text \<open>
  The spec's description of the ``other details'' text: one labeled block for each
  secondary field, in the order salary, HR contact, email, previous holder, manager,
  team mates, the blocks separated by blank lines. The labels are those of App.tsx.
\<close>

definition labeled_blocks :: "ExtractedJobDetails \<Rightarrow> string list" where
  "labeled_blocks d =
     [''Salary Budget: '' @ salaryBudget d,
      ''HR Contact: '' @ hrContact d,
      ''Email: '' @ contactEmail d,
      ''Previous/Current Holder:'' @ nl @ previousHolder d,
      ''Possible Manager:'' @ nl @ possibleManager d,
      ''Possible Team Mates:'' @ nl @ teamMates d]"

fun join_blank_lines :: "string list \<Rightarrow> string" where
  "join_blank_lines [] = []"
| "join_blank_lines [b] = b"
| "join_blank_lines (b # bs) = b @ nl @ nl @ join_blank_lines bs"

text \<open>The actions of the timers that are due once \<open>d\<close> milliseconds have passed.\<close>

definition due_actions :: "nat \<Rightarrow> world \<Rightarrow> timer_action set" where
  "due_actions d w = snd ` {p \<in> set (timers w). fst p \<le> clock w + d}"

text \<open>
  Every queued toast has a timer pending that removes it, due at most 5000 ms from now.
\<close>

definition expiry_pending :: "world \<Rightarrow> bool" where
  "expiry_pending w =
     list_all (\<lambda>t. list_ex (\<lambda>p. fst p \<le> clock w + 5000 \<and> snd p = ExpireToast (toast_id t)) (timers w))
       (toasts w)"

definition sample_details :: ExtractedJobDetails where
  "sample_details =
     \<lparr> companyProfile = ''Acme builds rockets.'', jobDescription = ''Write firmware.'',
       salaryBudget = ''NA'', hrContact = ''R. Roe'', contactEmail = ''jobs@acme.example'',
       previousHolder = ''P. Poe'', possibleManager = ''M. Moe'', teamMates = ''T. Toe'' \<rparr>"

definition sample_parse :: "string \<Rightarrow> ExtractedJobDetails option" where
  "sample_parse s = (if s = ''{...}'' then Some sample_details else None)"

definition with_url :: world where
  "with_url = initial_world\<lparr> url := ''https://acme.example/job/1'' \<rparr>"





definition with_job :: world where
  "with_job =
     initial_world\<lparr> companyProfile_st := ''Acme builds rockets.'',
       jobDescription_st := ''Write firmware.'', cvContent := ''# Jane Doe'' \<rparr>"

definition blank_url :: world where
  "blank_url = initial_world\<lparr> url := ''   '' \<rparr>"

definition pdf :: upload where
  "pdf = \<lparr> file_type = ''application/pdf'' \<rparr>"

text \<open>
  A fresh session in which a PDF was chosen 200 ms ago: the reader is at work, the timer
  of \<open>handleFileUpload\<close> is pending.
\<close>

definition uploading :: world where
  "uploading = advance 200 (handleFileUpload (Some pdf) ''r0'' initial_world)"

section \<open>Properties\<close>

lemmas service_defs =
  extractJobDetails_def parseResumeFromMedia_def parseResumeFromText_def optimizeCV_def
  generateCoverLetter_def generateContent_def response_text_def rethrow_def

subsection \<open>Strings and services\<close>

text \<open>\<open>trim s\<close> is empty exactly when \<open>s\<close> is empty or white space only.\<close>

lemma trim_Nil_iff: "trim s = [] \<longleftrightarrow> (\<forall>c \<in> set s. is_space c)"
proof
  assume "trim s = []"
  then have all: "\<forall>c \<in> set (dropWhile is_space s). is_space c"
    by (simp add: trim_def)
  have "dropWhile is_space s = []"
  proof (rule ccontr)
    assume ne: "dropWhile is_space s \<noteq> []"
    then have "\<not> is_space (hd (dropWhile is_space s))" by (rule hd_dropWhile)
    moreover have "hd (dropWhile is_space s) \<in> set (dropWhile is_space s)"
      using ne by (rule hd_in_set)
    ultimately show False using all by blast
  qed
  then show "\<forall>c \<in> set s. is_space c" by simp
next
  assume "\<forall>c \<in> set s. is_space c"
  then have "dropWhile is_space s = []" by simp
  then show "trim s = []" by (simp add: trim_def del: dropWhile_eq_Nil_conv)
qed

lemma service_snd:
  "snd (extractJobDetails gen parse u w) = w\<lparr> calls := calls w @ [ReqExtract u] \<rparr>"
  "snd (parseResumeFromMedia gen b m w) = w\<lparr> calls := calls w @ [ReqParseMedia b m] \<rparr>"
  "snd (parseResumeFromText gen raw w) = w\<lparr> calls := calls w @ [ReqParseText raw] \<rparr>"
  "snd (optimizeCV gen cv cp jd w) = w\<lparr> calls := calls w @ [ReqOptimize cv cp jd] \<rparr>"
  "snd (generateCoverLetter gen cv cp jd w) = w\<lparr> calls := calls w @ [ReqCoverLetter cv cp jd] \<rparr>"
  by (simp_all add: service_defs)

lemma service_success:
  "text \<noteq> [] \<Longrightarrow> gen (ReqParseMedia b m) = Response (Some text) \<Longrightarrow> fst (parseResumeFromMedia gen b m w) = Inr text"
  "text \<noteq> [] \<Longrightarrow> gen (ReqParseText raw) = Response (Some text) \<Longrightarrow> fst (parseResumeFromText gen raw w) = Inr text"
  "text \<noteq> [] \<Longrightarrow> gen (ReqOptimize cv cp jd) = Response (Some text) \<Longrightarrow> fst (optimizeCV gen cv cp jd w) = Inr text"
  "text \<noteq> [] \<Longrightarrow> gen (ReqCoverLetter cv cp jd) = Response (Some text) \<Longrightarrow> fst (generateCoverLetter gen cv cp jd w) = Inr text"
  by (simp_all add: service_defs)

lemma addToast_fields:
  "cvContent (addToast rid ty msg w) = cvContent w"
  "clContent (addToast rid ty msg w) = clContent w"
  "status (addToast rid ty msg w) = status w"
  "calls (addToast rid ty msg w) = calls w"
  "toasts (addToast rid ty msg w) = toasts w @ [\<lparr>toast_id = rid, toast_type = ty, message = msg\<rparr>]"
  by (simp_all add: addToast_def)

subsection \<open>Timers\<close>

lemma fold_run_action:
  "fold (\<lambda>p. run_action (snd p)) ps w =
     w\<lparr> toasts := filter (\<lambda>t. ExpireToast (toast_id t) \<notin> snd ` set ps) (toasts w),
        status := (if StatusIdle \<in> snd ` set ps then IDLE else status w) \<rparr>"
proof (induction ps arbitrary: w)
  case Nil
  show ?case by simp
next
  case (Cons p ps)
  obtain at a where p: "p = (at, a)" by (cases p)
  show ?case
  proof (cases a)
    case (ExpireToast i)
    have "filter (\<lambda>t. ExpireToast (toast_id t) \<notin> snd ` set ps)
            (filter (\<lambda>t. toast_id t \<noteq> i) (toasts w))
          = filter (\<lambda>t. ExpireToast (toast_id t) \<notin> snd ` set (p # ps)) (toasts w)"
      using p ExpireToast by (auto intro: filter_cong)
    then show ?thesis
      using p ExpireToast Cons.IH [of "run_action a w"] by (simp add: image_iff)
  next
    case StatusIdle
    then show ?thesis using p Cons.IH [of "run_action a w"] by simp
  qed
qed

text \<open>The order in which the due timers run does not show in the state they leave.\<close>

lemma advance_eq:
  "advance d w =
     w\<lparr> clock := clock w + d,
        timers := filter (\<lambda>p. clock w + d < fst p) (timers w),
        toasts := filter (\<lambda>t. ExpireToast (toast_id t) \<notin> due_actions d w) (toasts w),
        status := (if StatusIdle \<in> due_actions d w then IDLE else status w) \<rparr>"
  by (simp add: advance_def Let_def fold_run_action due_actions_def)





subsection \<open>Notifications\<close>




subsection \<open>Expiry under interleaving\<close>

text \<open>
  \<open>expiry_pending\<close> holds in the initial state and is kept by every handler, callback
  and continuation, by a dismissal and by the passing of time. So, whatever happens in
  between, a queue is empty once 5000 ms have passed with no new toast.
\<close>

lemma pending_iff:
  "list_ex (\<lambda>p. fst p \<le> c \<and> snd p = a) ts \<longleftrightarrow> (\<exists>due \<le> c. (due, a) \<in> set ts)"
proof
  assume "list_ex (\<lambda>p. fst p \<le> c \<and> snd p = a) ts"
  then obtain p where "p \<in> set ts" "fst p \<le> c" "snd p = a"
    unfolding list_ex_iff by blast
  then have "fst p \<le> c \<and> (fst p, a) \<in> set ts" by (metis prod.collapse)
  then show "\<exists>due \<le> c. (due, a) \<in> set ts" by blast
next
  assume "\<exists>due \<le> c. (due, a) \<in> set ts"
  then obtain due where "due \<le> c" "(due, a) \<in> set ts" by blast
  then show "list_ex (\<lambda>p. fst p \<le> c \<and> snd p = a) ts"
    unfolding list_ex_iff by (intro bexI [of _ "(due, a)"]) simp_all
qed

lemma expiry_pending_iff:
  "expiry_pending w \<longleftrightarrow>
     (\<forall>t \<in> set (toasts w). \<exists>due \<le> clock w + 5000. (due, ExpireToast (toast_id t)) \<in> set (timers w))"
  unfolding expiry_pending_def list_all_iff pending_iff ..

lemma expiry_pending_initial: "expiry_pending initial_world"
  by (simp add: expiry_pending_def initial_world_def)

lemma expiry_pending_mono:
  assumes "expiry_pending w" and "clock w' = clock w" and "set (timers w) \<subseteq> set (timers w')"
      and "set (toasts w') \<subseteq> set (toasts w)"
  shows "expiry_pending w'"
  unfolding expiry_pending_iff
proof
  fix t assume "t \<in> set (toasts w')"
  then have "t \<in> set (toasts w)" using assms(4) by blast
  then obtain due where "due \<le> clock w + 5000" "(due, ExpireToast (toast_id t)) \<in> set (timers w)"
    using assms(1) unfolding expiry_pending_iff by blast
  then have "due \<le> clock w' + 5000 \<and> (due, ExpireToast (toast_id t)) \<in> set (timers w')"
    using assms(2,3) by auto
  then show "\<exists>due \<le> clock w' + 5000. (due, ExpireToast (toast_id t)) \<in> set (timers w')"
    by blast
qed

lemma expiry_pending_addToast:
  assumes "expiry_pending w"
  shows "expiry_pending (addToast rid ty msg w)"
  unfolding expiry_pending_iff
proof
  fix t assume "t \<in> set (toasts (addToast rid ty msg w))"
  then consider "t \<in> set (toasts w)" | "toast_id t = rid"
    by (auto simp: addToast_def)
  then have "\<exists>due. due \<le> clock w + 5000 \<and> (due, ExpireToast (toast_id t)) \<in> set (timers w) \<union> {(clock w + 5000, ExpireToast rid)}"
  proof cases
    case 1
    then show ?thesis using assms unfolding expiry_pending_iff by blast
  next
    case 2
    then show ?thesis by blast
  qed
  then show "\<exists>due \<le> clock (addToast rid ty msg w) + 5000.
      (due, ExpireToast (toast_id t)) \<in> set (timers (addToast rid ty msg w))"
    by (simp add: addToast_def)
qed

lemma expiry_pending_removeToast:
  assumes "expiry_pending w"
  shows "expiry_pending (removeToast i w)"
  using assms by (rule expiry_pending_mono) (simp_all add: removeToast_def)

lemma expiry_pending_advance:
  assumes "expiry_pending w"
  shows "expiry_pending (advance d w)"
  unfolding expiry_pending_iff
proof
  fix t assume t: "t \<in> set (toasts (advance d w))"
  then have "t \<in> set (toasts w)" and nd: "ExpireToast (toast_id t) \<notin> due_actions d w"
    by (auto simp: advance_eq)
  then obtain due where due: "due \<le> clock w + 5000" "(due, ExpireToast (toast_id t)) \<in> set (timers w)"
    using assms unfolding expiry_pending_iff by blast
  have "clock w + d < due"
  proof (rule ccontr)
    assume "\<not> clock w + d < due"
    then have "ExpireToast (toast_id t) \<in> due_actions d w"
      using due(2) unfolding due_actions_def by force
    then show False using nd by simp
  qed
  then have "due \<le> clock w + d + 5000 \<and> (due, ExpireToast (toast_id t)) \<in> set (timers (advance d w))"
    using due by (simp add: advance_eq)
  then show "\<exists>due \<le> clock (advance d w) + 5000. (due, ExpireToast (toast_id t)) \<in> set (timers (advance d w))"
    by (auto simp: advance_eq)
qed

lemma pending_is_due:
  assumes "expiry_pending w" and "5000 \<le> d" and "t \<in> set (toasts w)"
  shows "ExpireToast (toast_id t) \<in> due_actions d w"
proof -
  obtain due where "due \<le> clock w + 5000" and "(due, ExpireToast (toast_id t)) \<in> set (timers w)"
    using assms(1,3) unfolding expiry_pending_iff by blast
  then have "(due, ExpireToast (toast_id t)) \<in> {p \<in> set (timers w). fst p \<le> clock w + d}"
    using assms(2) by simp
  then show ?thesis
    unfolding due_actions_def by (rule image_eqI [rotated]) simp
qed

lemma expiry_pending_expires:
  assumes "expiry_pending w" and "5000 \<le> d"
  shows "toasts (advance d w) = []"
proof -
  have "filter (\<lambda>t. ExpireToast (toast_id t) \<notin> due_actions d w) (toasts w) = []"
    unfolding filter_empty_conv using pending_is_due [OF assms] by blast
  then show ?thesis
    unfolding advance_eq by simp
qed

lemma expiry_pending_update:
  "expiry_pending (w\<lparr> status := st \<rparr>) = expiry_pending w"
  "expiry_pending (w\<lparr> calls := cs \<rparr>) = expiry_pending w"
  "expiry_pending (w\<lparr> showImportMenu := m \<rparr>) = expiry_pending w"
  "expiry_pending (w\<lparr> cvContent := cv \<rparr>) = expiry_pending w"
  "expiry_pending (w\<lparr> clContent := cl \<rparr>) = expiry_pending w"
  "expiry_pending (w\<lparr> activeTab := tab \<rparr>) = expiry_pending w"
  "expiry_pending (w\<lparr> isEditing := e \<rparr>) = expiry_pending w"
  "expiry_pending (w\<lparr> companyProfile_st := cp \<rparr>) = expiry_pending w"
  "expiry_pending (w\<lparr> jobDescription_st := jd \<rparr>) = expiry_pending w"
  "expiry_pending (w\<lparr> otherDetails := od \<rparr>) = expiry_pending w"
  by (simp_all add: expiry_pending_def)

lemma expiry_pending_timer:
  "expiry_pending w \<Longrightarrow> expiry_pending (w\<lparr> timers := timers w @ ts \<rparr>)"
  by (rule expiry_pending_mono) auto

lemma expiry_pending_resume:
  assumes "expiry_pending w"
  shows "expiry_pending (handleExtract_resume r' rid w)"
    and "expiry_pending (handleOptimize_resume r rid w)"
    and "expiry_pending (handleGenerateCoverLetter_resume r rid w)"
    and "expiry_pending (reader_onload_resume r rid w)"
    and "expiry_pending (reader_onerror rid w)"
    and "expiry_pending (handlePasteFromGoogleDoc_resume r rid w)"
  using assms
  by (simp_all add: handleExtract_resume_def handleOptimize_resume_def
        handleGenerateCoverLetter_resume_def reader_onload_resume_def reader_onerror_def
        handlePasteFromGoogleDoc_resume_def expiry_pending_update expiry_pending_addToast
        split: sum.splits)

lemma expiry_pending_handlers:
  assumes "expiry_pending w"
  shows "expiry_pending (handleExtract gen parse rid w)"
    and "expiry_pending (handleOptimize gen rid w)"
    and "expiry_pending (handleGenerateCoverLetter gen rid w)"
    and "expiry_pending (handleFileUpload ev rid w)"
    and "expiry_pending (reader_onload gen f result rid w)"
    and "expiry_pending (handlePasteFromGoogleDoc clip gen rid w)"
  using assms expiry_pending_timer [of "w\<lparr> showImportMenu := False, status := PARSING \<rparr>"]
  by (simp_all add: handleExtract_def handleOptimize_def handleGenerateCoverLetter_def
        handleFileUpload_def reader_onload_def handlePasteFromGoogleDoc_def
        expiry_pending_resume expiry_pending_update expiry_pending_addToast
        service_snd split_beta Let_def
        split: option.splits clipboard_read.splits)

subsection \<open>handleExtract\<close>

lemma formattedDetails_blocks: "formattedDetails d = join_blank_lines (labeled_blocks d)"
  by (simp add: formattedDetails_def labeled_blocks_def)

lemma handleExtract_resume_success:
  "handleExtract_resume (Inr d) rid w =
     w\<lparr> companyProfile_st := companyProfile d, jobDescription_st := jobDescription d,
        otherDetails := formattedDetails d,
        toasts := toasts w @ [\<lparr>toast_id = rid, toast_type = ToastSuccess,
                               message = ''Job details extracted successfully!''\<rparr>],
        timers := timers w @ [(clock w + 5000, ExpireToast rid)],
        status := IDLE \<rparr>"
  by (simp add: handleExtract_resume_def addToast_def)

lemma extractJobDetails_success:
  assumes "gen (ReqExtract u) = Response (Some text)" and "text \<noteq> []" and "parse text = Some d"
  shows "extractJobDetails gen parse u w = (Inr d, w\<lparr> calls := calls w @ [ReqExtract u] \<rparr>)"
  using assms by (simp add: service_defs)

text \<open>
  C3: when the URL is not blank and the generation client answers with a text that parses
  to job details, \<open>handleExtract\<close> overwrites the company profile and the job description
  with the extracted values and sets the other details to the labeled blocks of the
  secondary fields, in the order salary, HR contact, email, previous holder, manager, team
  mates, separated by blank lines. The blocks are six.
\<close>

theorem extract_success:
  assumes "trim (url w) \<noteq> []"
      and "gen (ReqExtract (url w)) = Response (Some text)" and "text \<noteq> []"
      and "parse text = Some d"
  shows "companyProfile_st (handleExtract gen parse rid w) = companyProfile d
       \<and> jobDescription_st (handleExtract gen parse rid w) = jobDescription d
       \<and> otherDetails (handleExtract gen parse rid w) = join_blank_lines (labeled_blocks d)
       \<and> length (labeled_blocks d) = 6"
  using assms
  by (simp add: handleExtract_def extractJobDetails_success handleExtract_resume_success
        formattedDetails_blocks) (simp add: labeled_blocks_def)

theorem extract_success_witness:
  "trim (url with_url) \<noteq> []
   \<and> (\<lambda>q. Response (Some ''{...}'')) (ReqExtract (url with_url)) = Response (Some ''{...}'')
   \<and> ''{...}'' \<noteq> []
   \<and> sample_parse ''{...}'' = Some sample_details
   \<and> companyProfile_st (handleExtract (\<lambda>q. Response (Some ''{...}'')) sample_parse ''r1'' with_url)
       = ''Acme builds rockets.''
   \<and> otherDetails (handleExtract (\<lambda>q. Response (Some ''{...}'')) sample_parse ''r1'' with_url)
     = ''Salary Budget: NA'' @ nl @ nl @ ''HR Contact: R. Roe'' @ nl @ nl @
       ''Email: jobs@acme.example'' @ nl @ nl @ ''Previous/Current Holder:'' @ nl @ ''P. Poe''
       @ nl @ nl @ ''Possible Manager:'' @ nl @ ''M. Moe'' @ nl @ nl @
       ''Possible Team Mates:'' @ nl @ ''T. Toe''"
  using extract_success [of with_url "\<lambda>q. Response (Some ''{...}'')" "''{...}''"
      sample_parse sample_details "''r1''"]
  by (simp add: with_url_def initial_world_def trim_def is_space_def labeled_blocks_def
        sample_details_def sample_parse_def)

text \<open>
  C6: with a URL that is empty or white space only, \<open>handleExtract\<close> pushes the error
  notification and does nothing else: no request is sent and the status is as it was.
\<close>

theorem empty_url_no_call:
  assumes "trim (url w) = []"
  shows "handleExtract gen parse rid w = addToast rid ToastError ''Please enter a valid URL'' w
       \<and> calls (handleExtract gen parse rid w) = calls w
       \<and> status (handleExtract gen parse rid w) = status w"
  using assms by (simp add: handleExtract_def addToast_def)

theorem empty_url_no_call_witness:
  "trim (url blank_url) = []
   \<and> toasts (handleExtract (\<lambda>q. Response (Some ''{...}'')) sample_parse ''r1'' blank_url)
       = [\<lparr>toast_id = ''r1'', toast_type = ToastError, message = ''Please enter a valid URL''\<rparr>]
   \<and> calls (handleExtract (\<lambda>q. Response (Some ''{...}'')) sample_parse ''r1'' blank_url) = []
   \<and> status (handleExtract (\<lambda>q. Response (Some ''{...}'')) sample_parse ''r1'' blank_url) = IDLE"
  using empty_url_no_call [of blank_url "\<lambda>q. Response (Some ''{...}'')" sample_parse "''r1''"]
  by (simp add: blank_url_def initial_world_def trim_def is_space_def addToast_def)

subsection \<open>handleOptimize and handleGenerateCoverLetter\<close>

text \<open>
  C5: when the company profile, the job description or the CV is empty after trimming,
  \<open>handleOptimize\<close> and \<open>handleGenerateCoverLetter\<close> push an error notification and do
  nothing else: no request is sent and the status is as it was.
\<close>

theorem precondition_error_no_call:
  assumes "trim (companyProfile_st w) = [] \<or> trim (jobDescription_st w) = [] \<or> trim (cvContent w) = []"
  shows "(\<exists>msg. handleOptimize gen rid w = addToast rid ToastError msg w)
       \<and> calls (handleOptimize gen rid w) = calls w
       \<and> status (handleOptimize gen rid w) = status w
       \<and> (\<exists>msg. handleGenerateCoverLetter gen rid w = addToast rid ToastError msg w)
       \<and> calls (handleGenerateCoverLetter gen rid w) = calls w
       \<and> status (handleGenerateCoverLetter gen rid w) = status w"
  using assms by (auto simp: handleOptimize_def handleGenerateCoverLetter_def addToast_def)

theorem precondition_error_no_call_witness:
  "(trim (companyProfile_st initial_world) = [] \<or> trim (jobDescription_st initial_world) = []
      \<or> trim (cvContent initial_world) = [])
   \<and> calls (handleOptimize (\<lambda>q. Response (Some ''x'')) ''r1'' initial_world) = []
   \<and> status (handleOptimize (\<lambda>q. Response (Some ''x'')) ''r1'' initial_world) = IDLE
   \<and> calls (handleGenerateCoverLetter (\<lambda>q. Response (Some ''x'')) ''r1'' initial_world) = []
   \<and> status (handleGenerateCoverLetter (\<lambda>q. Response (Some ''x'')) ''r1'' initial_world) = IDLE"
  using precondition_error_no_call [of initial_world "\<lambda>q. Response (Some ''x'')" "''r1''"]
  by (simp add: initial_world_def trim_def)

text \<open>
  C7: when the preconditions hold and the generation client answers with a non-empty
  text, \<open>handleOptimize\<close> leaves exactly that text in the CV buffer, the CV tab active and
  the view in preview (\<open>isEditing\<close> false).
\<close>

theorem optimize_success:
  assumes "trim (companyProfile_st w) \<noteq> []" and "trim (jobDescription_st w) \<noteq> []"
      and "trim (cvContent w) \<noteq> []"
      and "gen (ReqOptimize (cvContent w) (companyProfile_st w) (jobDescription_st w)) = Response (Some text)"
      and "text \<noteq> []"
  shows "cvContent (handleOptimize gen rid w) = text
       \<and> activeTab (handleOptimize gen rid w) = Tab_cv
       \<and> isEditing (handleOptimize gen rid w) = False"
  using assms
  by (simp add: handleOptimize_def handleOptimize_resume_def addToast_def service_success service_snd split_beta)

theorem optimize_success_witness:
  "trim (companyProfile_st with_job) \<noteq> [] \<and> trim (jobDescription_st with_job) \<noteq> []
   \<and> trim (cvContent with_job) \<noteq> []
   \<and> cvContent (handleOptimize (\<lambda>q. Response (Some ''# Jane Doe, tailored'')) ''r1'' with_job) = ''# Jane Doe, tailored''
   \<and> activeTab (handleOptimize (\<lambda>q. Response (Some ''# Jane Doe, tailored'')) ''r1'' with_job) = Tab_cv
   \<and> isEditing (handleOptimize (\<lambda>q. Response (Some ''# Jane Doe, tailored'')) ''r1'' with_job) = False"
  using optimize_success [of with_job "\<lambda>q. Response (Some ''# Jane Doe, tailored'')" "''# Jane Doe, tailored''" "''r1''"]
  by (simp add: with_job_def initial_world_def trim_def is_space_def)

subsection \<open>Import\<close>

lemma reader_onload_success:
  assumes "text \<noteq> []"
      and "gen (ReqParseMedia (split_comma_1 result) (file_type f)) = Response (Some text)"
  shows "reader_onload gen f result rid w =
           addToast rid ToastSuccess ''CV imported successfully!''
             (w\<lparr> calls := calls w @ [ReqParseMedia (split_comma_1 result) (file_type f)],
                 cvContent := text, activeTab := Tab_cv, isEditing := True \<rparr>)"
  using assms
  by (simp add: reader_onload_def reader_onload_resume_def service_success service_snd split_beta)

lemma reader_onload_failure:
  assumes "gen (ReqParseMedia (split_comma_1 result) (file_type f)) \<in> {Rejected, Response None, Response (Some [])}"
  shows "reader_onload gen f result rid w =
           w\<lparr> calls := calls w @ [ReqParseMedia (split_comma_1 result) (file_type f)] \<rparr>"
  using assms
  by (auto simp: reader_onload_def reader_onload_resume_def service_defs)

text \<open>
  C8: a successful import, from a PDF or image file (the \<open>onload\<close> callback of the
  reader that \<open>handleFileUpload\<close> started, however long the read took) or from the
  clipboard, leaves the parsed text in the CV buffer, the CV tab active and the view in
  edit mode; a successful optimisation or cover letter leaves the view in preview.
\<close>

theorem import_success:
  assumes "text \<noteq> []"
      and "gen (ReqParseMedia (split_comma_1 result) (file_type f)) = Response (Some text)"
      and "trim raw \<noteq> []"
      and "gen (ReqParseText raw) = Response (Some text)"
      and "includes_str (file_type f) ''pdf'' \<or> includes_str (file_type f) ''image''"
  shows "cvContent (reader_onload gen f result rid' (advance d (handleFileUpload (Some f) rid w))) = text
       \<and> activeTab (reader_onload gen f result rid' (advance d (handleFileUpload (Some f) rid w))) = Tab_cv
       \<and> isEditing (reader_onload gen f result rid' (advance d (handleFileUpload (Some f) rid w))) = True
       \<and> cvContent (handlePasteFromGoogleDoc (ClipText raw) gen rid w) = text
       \<and> activeTab (handlePasteFromGoogleDoc (ClipText raw) gen rid w) = Tab_cv
       \<and> isEditing (handlePasteFromGoogleDoc (ClipText raw) gen rid w) = True
       \<and> isEditing (handleOptimize_resume (Inr text) rid w) = False
       \<and> isEditing (handleGenerateCoverLetter_resume (Inr text) rid w) = False"
proof -
  have "raw \<noteq> []" using assms(3) by (auto simp: trim_def)
  then have "handlePasteFromGoogleDoc (ClipText raw) gen rid w =
      handlePasteFromGoogleDoc_resume (Inr text) rid
        (w\<lparr> showImportMenu := False, status := PARSING, calls := calls w @ [ReqParseText raw] \<rparr>)"
    using assms by (simp add: handlePasteFromGoogleDoc_def service_success service_snd split_beta)
  then show ?thesis
    using assms(1,2)
    by (simp add: reader_onload_success handlePasteFromGoogleDoc_resume_def
          handleOptimize_resume_def handleGenerateCoverLetter_resume_def addToast_def)
qed

theorem import_success_witness:
  "''# Jane Doe'' \<noteq> []
   \<and> trim ''  Jane Doe  '' \<noteq> []
   \<and> (includes_str (file_type pdf) ''pdf'' \<or> includes_str (file_type pdf) ''image'')
   \<and> isEditing (reader_onload (\<lambda>q. Response (Some ''# Jane Doe'')) pdf
         ''data:application/pdf;base64,QUJD'' ''r1''
         (advance 200 (handleFileUpload (Some pdf) ''r0'' (with_job\<lparr> isEditing := False \<rparr>)))) = True
   \<and> cvContent (handlePasteFromGoogleDoc (ClipText ''  Jane Doe  '')
         (\<lambda>q. Response (Some ''# Jane Doe'')) ''r0'' (with_job\<lparr> isEditing := False \<rparr>)) = ''# Jane Doe''
   \<and> isEditing (handlePasteFromGoogleDoc (ClipText ''  Jane Doe  '')
         (\<lambda>q. Response (Some ''# Jane Doe'')) ''r0'' (with_job\<lparr> isEditing := False \<rparr>)) = True"
  using import_success [of "''# Jane Doe''" "\<lambda>q. Response (Some ''# Jane Doe'')"
      "''data:application/pdf;base64,QUJD''" pdf "''  Jane Doe  ''" "''r1''" 200 "''r0''"
      "with_job\<lparr> isEditing := False \<rparr>"]
  by (simp add: trim_def is_space_def pdf_def)

subsection \<open>Frame\<close>

lemma frame_resume:
  "clContent (handleOptimize_resume r rid w) = clContent w"
  "clContent (reader_onload_resume r rid w) = clContent w"
  "clContent (handlePasteFromGoogleDoc_resume r rid w) = clContent w"
  "cvContent (handleGenerateCoverLetter_resume r rid w) = cvContent w"
  "cvContent (handleExtract_resume r' rid w) = cvContent w"
  "clContent (handleExtract_resume r' rid w) = clContent w"
  by (simp_all add: handleOptimize_resume_def reader_onload_resume_def
        handlePasteFromGoogleDoc_resume_def handleGenerateCoverLetter_resume_def
        handleExtract_resume_def addToast_fields split: sum.splits)

lemma service_frame:
  "cvContent (snd (extractJobDetails gen parse u w)) = cvContent w"
  "clContent (snd (extractJobDetails gen parse u w)) = clContent w"
  "clContent (snd (parseResumeFromMedia gen b m w)) = clContent w"
  "clContent (snd (parseResumeFromText gen raw w)) = clContent w"
  "clContent (snd (optimizeCV gen cv cp jd w)) = clContent w"
  "cvContent (snd (generateCoverLetter gen cv cp jd w)) = cvContent w"
  by (simp_all add: service_snd)

lemma frame_handlers:
  "clContent (handleOptimize gen rid w) = clContent w"
  "clContent (handleFileUpload ev rid w) = clContent w"
  "clContent (reader_onload gen f result rid w) = clContent w"
  "clContent (reader_onerror rid w) = clContent w"
  "clContent (handlePasteFromGoogleDoc clip gen rid w) = clContent w"
  "cvContent (handleGenerateCoverLetter gen rid w) = cvContent w"
  "cvContent (handleExtract gen parse rid w) = cvContent w"
  "clContent (handleExtract gen parse rid w) = clContent w"
  by (simp_all add: handleOptimize_def handleFileUpload_def reader_onload_def reader_onerror_def
        handlePasteFromGoogleDoc_def handleGenerateCoverLetter_def handleExtract_def
        frame_resume service_frame addToast_fields split_beta Let_def
        split: option.splits clipboard_read.splits)

lemma frame_timers:
  "cvContent (advance d w) = cvContent w" "clContent (advance d w) = clContent w"
  "cvContent (removeToast i w) = cvContent w" "clContent (removeToast i w) = clContent w"
  by (simp_all add: advance_eq removeToast_def)

text \<open>
  C10: the handlers of optimisation and import, their callbacks and continuations, leave
  the cover letter as it is; those of the cover letter leave the CV as it is; those of
  the extraction leave both; and so does the passing of time.
\<close>

theorem other_buffer_unchanged:
  "clContent (handleOptimize gen rid w) = clContent w
   \<and> clContent (handleOptimize_resume r rid w) = clContent w
   \<and> clContent (handleFileUpload ev rid w) = clContent w
   \<and> clContent (reader_onload gen f result rid w) = clContent w
   \<and> clContent (reader_onerror rid w) = clContent w
   \<and> clContent (handlePasteFromGoogleDoc clip gen rid w) = clContent w
   \<and> clContent (handlePasteFromGoogleDoc_resume r rid w) = clContent w
   \<and> cvContent (handleGenerateCoverLetter gen rid w) = cvContent w
   \<and> cvContent (handleGenerateCoverLetter_resume r rid w) = cvContent w
   \<and> cvContent (handleExtract gen parse rid w) = cvContent w
   \<and> clContent (handleExtract gen parse rid w) = clContent w
   \<and> cvContent (handleExtract_resume r' rid w) = cvContent w
   \<and> clContent (handleExtract_resume r' rid w) = clContent w
   \<and> cvContent (advance d w) = cvContent w
   \<and> clContent (advance d w) = clContent w"
  by (simp add: frame_handlers frame_resume frame_timers)

theorem other_buffer_unchanged_witness:
  "clContent (handleOptimize (\<lambda>q. Response (Some ''# Jane Doe, tailored'')) ''r1'' with_job)
     = clContent initial_world
   \<and> cvContent (handleGenerateCoverLetter (\<lambda>q. Response (Some ''Dear Acme'')) ''r1'' with_job)
     = ''# Jane Doe''"
  using other_buffer_unchanged [of "\<lambda>q. Response (Some ''# Jane Doe, tailored'')" "''r1''" with_job]
    other_buffer_unchanged [of "\<lambda>q. Response (Some ''Dear Acme'')" "''r1''" with_job]
  by (simp add: with_job_def initial_world_def)

subsection \<open>Outcomes\<close>

text \<open>
  What a service returns, by the answer of the generation client. Then, for each handler
  but the file import: it pushes one notification, and either that is an error and the
  fields the operation writes are as they were, or it is a success and they hold the
  result of the service.
\<close>

lemma service_cases:
  "fst (extractJobDetails gen parse u w) =
     (case gen (ReqExtract u) of
        Response (Some text) \<Rightarrow>
          (if text = [] then Inl ''Failed to extract job details. Please ensure the URL is valid or try pasting the details manually.''
           else case parse text of
                  None \<Rightarrow> Inl ''Failed to extract job details. Please ensure the URL is valid or try pasting the details manually.''
                | Some d \<Rightarrow> Inr d)
      | _ \<Rightarrow> Inl ''Failed to extract job details. Please ensure the URL is valid or try pasting the details manually.'')"
  "fst (parseResumeFromMedia gen b m w) =
     (case gen (ReqParseMedia b m) of
        Response (Some text) \<Rightarrow>
          (if text = [] then Inl ''Failed to read the resume file. Please try converting to a simpler PDF or Image, or copy-paste the text.''
           else Inr text)
      | _ \<Rightarrow> Inl ''Failed to read the resume file. Please try converting to a simpler PDF or Image, or copy-paste the text.'')"
  "fst (parseResumeFromText gen raw w) =
     (case gen (ReqParseText raw) of
        Response (Some text) \<Rightarrow>
          (if text = [] then Inl ''Failed to parse text content. Please try again.'' else Inr text)
      | _ \<Rightarrow> Inl ''Failed to parse text content. Please try again.'')"
  "fst (optimizeCV gen cv cp jd w) =
     (case gen (ReqOptimize cv cp jd) of
        Response (Some text) \<Rightarrow>
          (if text = [] then Inl ''Failed to optimize CV. Please try again.'' else Inr text)
      | _ \<Rightarrow> Inl ''Failed to optimize CV. Please try again.'')"
  "fst (generateCoverLetter gen cv cp jd w) =
     (case gen (ReqCoverLetter cv cp jd) of
        Response (Some text) \<Rightarrow>
          (if text = [] then Inl ''Failed to generate Cover Letter.'' else Inr text)
      | _ \<Rightarrow> Inl ''Failed to generate Cover Letter.'')"
  by (simp_all add: service_defs split: api_outcome.splits option.splits)

lemma resume_pushes_one:
  "\<exists>ty msg. toasts (handleExtract_resume r' rid w) = toasts w @ [\<lparr>toast_id = rid, toast_type = ty, message = msg\<rparr>]
       \<and> ty = (if isl r' then ToastError else ToastSuccess)"
  "\<exists>ty msg. toasts (handleOptimize_resume r rid w) = toasts w @ [\<lparr>toast_id = rid, toast_type = ty, message = msg\<rparr>]
       \<and> ty = (if isl r then ToastError else ToastSuccess)"
  "\<exists>ty msg. toasts (handleGenerateCoverLetter_resume r rid w) = toasts w @ [\<lparr>toast_id = rid, toast_type = ty, message = msg\<rparr>]
       \<and> ty = (if isl r then ToastError else ToastSuccess)"
  "\<exists>ty msg. toasts (handlePasteFromGoogleDoc_resume r rid w) = toasts w @ [\<lparr>toast_id = rid, toast_type = ty, message = msg\<rparr>]
       \<and> ty = (if isl r then ToastError else ToastSuccess)"
  by (simp_all add: handleExtract_resume_def handleOptimize_resume_def
        handleGenerateCoverLetter_resume_def handlePasteFromGoogleDoc_resume_def addToast_def
        split: sum.splits)

lemma handlers_push_one:
  "\<exists>ty msg. toasts (handleExtract gen parse rid w) = toasts w @ [\<lparr>toast_id = rid, toast_type = ty, message = msg\<rparr>]"
  "\<exists>ty msg. toasts (handleOptimize gen rid w) = toasts w @ [\<lparr>toast_id = rid, toast_type = ty, message = msg\<rparr>]"
  "\<exists>ty msg. toasts (handleGenerateCoverLetter gen rid w) = toasts w @ [\<lparr>toast_id = rid, toast_type = ty, message = msg\<rparr>]"
  "\<exists>ty msg. toasts (handlePasteFromGoogleDoc clip gen rid w) = toasts w @ [\<lparr>toast_id = rid, toast_type = ty, message = msg\<rparr>]"
  "\<exists>ty msg. toasts (reader_onerror rid w) = toasts w @ [\<lparr>toast_id = rid, toast_type = ty, message = msg\<rparr>]"
  using resume_pushes_one(1) [of "fst (extractJobDetails gen parse (url w) (w\<lparr>status := EXTRACTING\<rparr>))" rid
          "snd (extractJobDetails gen parse (url w) (w\<lparr>status := EXTRACTING\<rparr>))"]
  by (simp_all add: handleExtract_def handleOptimize_def handleGenerateCoverLetter_def
        handlePasteFromGoogleDoc_def reader_onerror_def 
        handleExtract_resume_def handleOptimize_resume_def
        handleGenerateCoverLetter_resume_def handlePasteFromGoogleDoc_resume_def
        addToast_def service_snd split_beta Let_def
        split: clipboard_read.splits sum.splits)


lemma extract_exactly_one:
  "(toast_type (last (toasts (handleExtract gen parse rid w))) = ToastError
      \<and> companyProfile_st (handleExtract gen parse rid w) = companyProfile_st w
      \<and> jobDescription_st (handleExtract gen parse rid w) = jobDescription_st w
      \<and> otherDetails (handleExtract gen parse rid w) = otherDetails w)
   \<or> (toast_type (last (toasts (handleExtract gen parse rid w))) = ToastSuccess
      \<and> (\<exists>d. fst (extractJobDetails gen parse (url w) w) = Inr d
             \<and> companyProfile_st (handleExtract gen parse rid w) = companyProfile d
             \<and> jobDescription_st (handleExtract gen parse rid w) = jobDescription d
             \<and> otherDetails (handleExtract gen parse rid w) = formattedDetails d))"
  by (simp add: handleExtract_def handleExtract_resume_def addToast_def service_snd service_cases
        split_beta split: api_outcome.splits option.splits)

lemma optimize_exactly_one:
  "(toast_type (last (toasts (handleOptimize gen rid w))) = ToastError
      \<and> cvContent (handleOptimize gen rid w) = cvContent w
      \<and> activeTab (handleOptimize gen rid w) = activeTab w
      \<and> isEditing (handleOptimize gen rid w) = isEditing w)
   \<or> (toast_type (last (toasts (handleOptimize gen rid w))) = ToastSuccess
      \<and> fst (optimizeCV gen (cvContent w) (companyProfile_st w) (jobDescription_st w) w)
            = Inr (cvContent (handleOptimize gen rid w))
      \<and> activeTab (handleOptimize gen rid w) = Tab_cv
      \<and> isEditing (handleOptimize gen rid w) = False)"
  by (simp add: handleOptimize_def handleOptimize_resume_def addToast_def service_snd service_cases
        split_beta split: api_outcome.splits option.splits)

lemma cover_letter_exactly_one:
  "(toast_type (last (toasts (handleGenerateCoverLetter gen rid w))) = ToastError
      \<and> clContent (handleGenerateCoverLetter gen rid w) = clContent w
      \<and> activeTab (handleGenerateCoverLetter gen rid w) = activeTab w
      \<and> isEditing (handleGenerateCoverLetter gen rid w) = isEditing w)
   \<or> (toast_type (last (toasts (handleGenerateCoverLetter gen rid w))) = ToastSuccess
      \<and> fst (generateCoverLetter gen (cvContent w) (companyProfile_st w) (jobDescription_st w) w)
            = Inr (clContent (handleGenerateCoverLetter gen rid w))
      \<and> activeTab (handleGenerateCoverLetter gen rid w) = Tab_cl
      \<and> isEditing (handleGenerateCoverLetter gen rid w) = False)"
  by (simp add: handleGenerateCoverLetter_def handleGenerateCoverLetter_resume_def addToast_def
        service_snd service_cases split_beta split: api_outcome.splits option.splits)

lemma paste_exactly_one:
  "(toast_type (last (toasts (handlePasteFromGoogleDoc clip gen rid w))) = ToastError
      \<and> cvContent (handlePasteFromGoogleDoc clip gen rid w) = cvContent w
      \<and> activeTab (handlePasteFromGoogleDoc clip gen rid w) = activeTab w
      \<and> isEditing (handlePasteFromGoogleDoc clip gen rid w) = isEditing w)
   \<or> (toast_type (last (toasts (handlePasteFromGoogleDoc clip gen rid w))) = ToastSuccess
      \<and> (\<exists>raw. clip = ClipText raw
            \<and> fst (parseResumeFromText gen raw w)
                 = Inr (cvContent (handlePasteFromGoogleDoc clip gen rid w)))
      \<and> activeTab (handlePasteFromGoogleDoc clip gen rid w) = Tab_cv
      \<and> isEditing (handlePasteFromGoogleDoc clip gen rid w) = True)"
proof (cases clip)
  case ClipDenied
  then show ?thesis
    by (simp add: handlePasteFromGoogleDoc_def addToast_def)
next
  case (ClipText raw)
  then show ?thesis
    by (simp add: handlePasteFromGoogleDoc_def handlePasteFromGoogleDoc_resume_def addToast_def
          service_snd split_beta Let_def service_cases
          split: api_outcome.splits option.splits)
qed

subsection \<open>Status and failures\<close>

text \<open>
  Every handler but the file import resets the status in the \<open>finally\<close> block that
  follows its call, and turns a failure of the service into an error notification.
\<close>

lemma status_after:
  "status (handleExtract_resume r' rid w) = IDLE"
  "status (handleOptimize_resume r rid w) = IDLE"
  "status (handleGenerateCoverLetter_resume r rid w) = IDLE"
  "status (handlePasteFromGoogleDoc_resume r rid w) = IDLE"
  "status (handlePasteFromGoogleDoc clip gen rid w) = IDLE"
  "status (reader_onerror rid w) = IDLE"
  "status (handleExtract gen parse rid w) = (if trim (url w) = [] then status w else IDLE)"
  "status (handleOptimize gen rid w) =
     (if trim (companyProfile_st w) = [] \<or> trim (jobDescription_st w) = [] \<or> trim (cvContent w) = []
      then status w else IDLE)"
  "status (handleGenerateCoverLetter gen rid w) =
     (if trim (companyProfile_st w) = [] \<or> trim (jobDescription_st w) = [] \<or> trim (cvContent w) = []
      then status w else IDLE)"
  by (simp_all add: handleExtract_resume_def handleOptimize_resume_def
        handleGenerateCoverLetter_resume_def handlePasteFromGoogleDoc_resume_def
        handlePasteFromGoogleDoc_def reader_onerror_def handleExtract_def handleOptimize_def
        handleGenerateCoverLetter_def addToast_fields split_beta Let_def
        split: clipboard_read.splits)

lemma reader_onload_status: "status (reader_onload gen f result rid w) = status w"
  by (simp add: reader_onload_def reader_onload_resume_def service_snd addToast_fields split_beta
        split: sum.splits)

lemma empty_text_is_failure:
  assumes "out \<in> {Response None, Response (Some [])}"
  shows "fst (extractJobDetails (\<lambda>q. out) parse u w) = fst (extractJobDetails (\<lambda>q. Rejected) parse u w)"
    and "fst (parseResumeFromMedia (\<lambda>q. out) b m w) = fst (parseResumeFromMedia (\<lambda>q. Rejected) b m w)"
    and "fst (parseResumeFromText (\<lambda>q. out) raw w) = fst (parseResumeFromText (\<lambda>q. Rejected) raw w)"
    and "fst (optimizeCV (\<lambda>q. out) cv cp jd w) = fst (optimizeCV (\<lambda>q. Rejected) cv cp jd w)"
    and "fst (generateCoverLetter (\<lambda>q. out) cv cp jd w) = fst (generateCoverLetter (\<lambda>q. Rejected) cv cp jd w)"
    and "isl (fst (optimizeCV (\<lambda>q. Rejected) cv cp jd w))"
  using assms by (auto simp: service_defs)

lemma failure_is_surfaced:
  "handleExtract_resume (Inl e) rid w =
     (addToast rid ToastError (or_else e ''Failed to extract data'') w)\<lparr> status := IDLE \<rparr>"
  "handleOptimize_resume (Inl e) rid w =
     (addToast rid ToastError (or_else e ''Failed to optimize CV'') w)\<lparr> status := IDLE \<rparr>"
  "handleGenerateCoverLetter_resume (Inl e) rid w =
     (addToast rid ToastError (or_else e ''Failed to generate Cover Letter'') w)\<lparr> status := IDLE \<rparr>"
  "handlePasteFromGoogleDoc_resume (Inl e) rid w =
     (addToast rid ToastError ''Failed to read clipboard. Please allow permissions.'' w)\<lparr> status := IDLE \<rparr>"
  "reader_onload_resume (Inl e) rid w = w"
  by (simp_all add: handleExtract_resume_def handleOptimize_resume_def
        handleGenerateCoverLetter_resume_def handlePasteFromGoogleDoc_resume_def
        reader_onload_resume_def)

text \<open>
  C1, at a failing input: a PDF is chosen and the request is rejected. The \<open>onload\<close>
  callback pushes no notification and changes no buffer; the request is all it leaves.
\<close>

theorem failed_file_import_is_silent:
  "toasts (reader_onload (\<lambda>q. Rejected) pdf ''data:application/pdf;base64,QUJD'' ''r1'' uploading) = []
   \<and> cvContent (reader_onload (\<lambda>q. Rejected) pdf ''data:application/pdf;base64,QUJD'' ''r1'' uploading)
       = cvContent initial_world
   \<and> calls (reader_onload (\<lambda>q. Rejected) pdf ''data:application/pdf;base64,QUJD'' ''r1'' uploading)
       = [ReqParseMedia (Some ''QUJD'') ''application/pdf'']
   \<and> toasts (advance 5000 (reader_onload (\<lambda>q. Rejected) pdf ''data:application/pdf;base64,QUJD'' ''r1'' uploading)) = []"
  by (simp add: reader_onload_def reader_onload_resume_def service_defs uploading_def
        handleFileUpload_def pdf_def advance_def initial_world_def split_comma_1_def)

text \<open>
  C2, at a failing input: a PDF is chosen and the call is over within 200 ms, parsed or
  rejected. When the \<open>onload\<close> callback has finished the status is still \<open>PARSING\<close>;
  the timer resets it 800 ms later.
\<close>

theorem file_import_status_after_completion:
  "status (reader_onload (\<lambda>q. Response (Some ''# Jane Doe'')) pdf
             ''data:application/pdf;base64,QUJD'' ''r1'' uploading) = PARSING
   \<and> status (reader_onload (\<lambda>q. Rejected) pdf
             ''data:application/pdf;base64,QUJD'' ''r1'' uploading) = PARSING
   \<and> status (advance 800 (reader_onload (\<lambda>q. Response (Some ''# Jane Doe'')) pdf
             ''data:application/pdf;base64,QUJD'' ''r1'' uploading)) = IDLE"
  by (simp add: reader_onload_def reader_onload_resume_def service_defs uploading_def
        handleFileUpload_def pdf_def advance_def initial_world_def split_comma_1_def addToast_def)

text \<open>
  C9, at a failing input: a PDF is chosen and the response has an empty text.
  \<open>parseResumeFromMedia\<close> throws as it does on a rejected request, but its caller pushes
  no notification and leaves the status at \<open>PARSING\<close>.
\<close>

theorem empty_text_file_import_is_silent:
  "fst (parseResumeFromMedia (\<lambda>q. Response (Some [])) (Some ''QUJD'') ''application/pdf'' uploading)
     = fst (parseResumeFromMedia (\<lambda>q. Rejected) (Some ''QUJD'') ''application/pdf'' uploading)
   \<and> toasts (reader_onload (\<lambda>q. Response (Some [])) pdf ''data:application/pdf;base64,QUJD'' ''r1'' uploading) = []
   \<and> status (reader_onload (\<lambda>q. Response (Some [])) pdf ''data:application/pdf;base64,QUJD'' ''r1'' uploading) = PARSING"
  by (simp add: reader_onload_def reader_onload_resume_def service_defs uploading_def
        handleFileUpload_def pdf_def advance_def initial_world_def split_comma_1_def)

end
